theory Spec2Isabelle
  imports Complex_Main
begin

section \<open>The sensor01 serial agent: protocol handlers and ingest loop\<close>

text \<open>
  A shallow embedding of \<^verbatim>\<open>src/sensor/sensor01_py/sensor01.py\<close>: the class
  \<^verbatim>\<open>Sensor\<close> (its fields, the three message handlers, \<^verbatim>\<open>read\<close> and
  \<^verbatim>\<open>process\<close>) and the body of the \<^verbatim>\<open>while True\<close> loop.

  Conventions of the embedding.
  \<^item> Mutation of \<^verbatim>\<open>self\<close> is explicit state passing: every method takes the sensor
    record and returns the updated one.
  \<^item> \<^verbatim>\<open>debug(...)\<close>, \<^verbatim>\<open>data(...)\<close> and \<^verbatim>\<open>time.sleep(1)\<close> are the
    observable effects of the methods. Each call is recorded as one event, in program
    order, in the event list a method returns. An event keeps the call site and the
    arguments of the format string instead of the formatted text. Whether an event reaches
    the console or the log file is decided by the configuration inside \<^verbatim>\<open>debug\<close> and
    \<^verbatim>\<open>data\<close>; the write itself is taken to succeed.
  \<^item> An exception is a value of \<open>pyexn\<close>; a computation that can let one escape returns
    \<open>pyexn + 'a\<close> with \<open>Inl\<close> for the exception. A \<^verbatim>\<open>try/except Exception\<close> is a case
    distinction on the outcome of the guarded statements.
  \<^item> Python's builtin \<^verbatim>\<open>float\<close> is not code of this repository. The handlers take
    it as a parameter \<open>pf :: string \<Rightarrow> 'f option\<close>, where \<open>None\<close> stands for the
    \<^verbatim>\<open>ValueError\<close> that \<^verbatim>\<open>float\<close> raises on a text that is no number, and \<open>'f\<close>
    is the type of float values.
\<close>

subsection \<open>Exceptions and events\<close>

datatype pyexn =
    ValueError
  | KeyError string
  | UnicodeDecodeError
  | External string
    \<comment> \<open>an exception raised by the serial port or by the database client, with its message\<close>

datatype event =
    Debug_got_info string pyexn
    \<comment> \<open>\<^verbatim>\<open>debug("got_info({}): {}".format(i, ex))\<close>\<close>
  | Debug_boot string string string
    \<comment> \<open>\<^verbatim>\<open>debug("Temp Sensor Boot: type:{} id:{} version:{}".format(scale, id, version))\<close>\<close>
  | Debug_got_data string pyexn
    \<comment> \<open>\<^verbatim>\<open>debug("got_data({}): {}".format(d, ex))\<close>\<close>
  | Debug_id_changed "string option" string
    \<comment> \<open>\<^verbatim>\<open>debug("id changed on us from {} to {}".format(self.id, id))\<close>\<close>
  | Debug_float_error string pyexn
    \<comment> \<open>\<^verbatim>\<open>debug("got_data({}):float_error: {}".format(d, ex))\<close>\<close>
  | Data_measurement string string string
    \<comment> \<open>\<^verbatim>\<open>data("Id {}, Temperature {}f, Humidity {}%".format(id, temperature, humidity))\<close>\<close>
  | Debug_error "string option" string
    \<comment> \<open>\<^verbatim>\<open>debug("ERROR: Id {} - {}".format(self.id, e))\<close>\<close>
  | Debug_get_data pyexn
    \<comment> \<open>\<^verbatim>\<open>debug("get_data(): {}".format(ex))\<close>\<close>
  | Debug_invalid pyexn string
    \<comment> \<open>\<^verbatim>\<open>debug("received invalid data from sensor: {} : \"{}\"".format(ex, self.line))\<close>\<close>
  | Debug_influxdb pyexn
    \<comment> \<open>\<^verbatim>\<open>debug("influxdb error: {}".format(ex))\<close>\<close>
  | Sleep
    \<comment> \<open>\<^verbatim>\<open>time.sleep(1)\<close>\<close>

subsection \<open>Strings: split, strip, decode\<close>

text \<open>
  \<^verbatim>\<open>str.split(sep)\<close> for a separator of one character: the text is cut at every
  separator, so the result has one field more than the text has separators, and the
  empty text gives one empty field.
\<close>

fun split_str :: "char \<Rightarrow> string \<Rightarrow> string list" where
  "split_str c [] = [[]]"
| "split_str c (x # xs) =
     (if x = c then [] # split_str c xs
      else (case split_str c xs of
              [] \<Rightarrow> [[x]]
            | w # ws \<Rightarrow> (x # w) # ws))"

text \<open>
  \<^verbatim>\<open>str.strip()\<close> on a text of ASCII characters removes the leading and the trailing
  whitespace: the codes 9 to 13, 28 to 31 and 32.
\<close>

definition is_space :: "char \<Rightarrow> bool" where
  "is_space c =
     (let n = (of_char c :: nat)
      in (9 \<le> n \<and> n \<le> 13) \<or> (28 \<le> n \<and> n \<le> 32))"

definition strip :: "string \<Rightarrow> string" where
  "strip l = rev (dropWhile is_space (rev (dropWhile is_space l)))"

text \<open>
  \<^verbatim>\<open>bytes.decode('ascii')\<close>: a \<open>char\<close> is a byte here; a byte of 128 or more raises
  \<^verbatim>\<open>UnicodeDecodeError\<close>, every other byte is the character of the same code.
\<close>

definition decode_ascii :: "string \<Rightarrow> pyexn + string" where
  "decode_ascii bs =
     (if list_all (\<lambda>b. (of_char b :: nat) < 128) bs then Inr bs
      else Inl UnicodeDecodeError)"

subsection \<open>The class Sensor\<close>

text \<open>
  The fields of \<^verbatim>\<open>Sensor.__init__\<close>. The field \<^verbatim>\<open>id\<close> is \<open>id_sensor\<close> here
  (\<open>id\<close> is the identity function of HOL). \<^verbatim>\<open>self.fd\<close> is the serial port:
  what its \<^verbatim>\<open>readline\<close> does is an input of \<open>read\<close>. \<^verbatim>\<open>self.dispatch\<close> is the
  constant table \<open>dispatch\<close> below.
\<close>

record 'f sensor =
  id_sensor :: "string option"
  ver :: "string option"
  scale :: "string option"
  serial_port :: string
  serial_speed :: int
  line :: "string option"
  temperature :: "'f option"
  humidity :: "'f option"

definition Sensor_init :: "string \<Rightarrow> int \<Rightarrow> 'f sensor" where
  "Sensor_init port speed =
     \<lparr>id_sensor = None, ver = None, scale = None,
      serial_port = port, serial_speed = speed,
      line = None, temperature = None, humidity = None\<rparr>"

type_synonym 'f handler = "string \<Rightarrow> 'f sensor \<Rightarrow> bool \<times> 'f sensor \<times> event list"

text \<open>
  \<^verbatim>\<open>got_info\<close>: the unpacking \<^verbatim>\<open>[_boot, scale, id, version] = i.split(':')\<close>
  raises \<^verbatim>\<open>ValueError\<close> unless there are exactly four fields.
\<close>

definition got_info :: "'f handler" where
  "got_info i s =
     (case split_str CHR '':'' i of
        [boot, scale', id', version] \<Rightarrow>
          (False,
           s\<lparr>scale := Some scale', id_sensor := Some id', ver := Some version\<rparr>,
           [Debug_boot scale' id' version])
      | _ \<Rightarrow> (False, s, [Debug_got_info i ValueError, Sleep]))"

text \<open>
  \<^verbatim>\<open>got_data\<close>: three fields or \<^verbatim>\<open>ValueError\<close>; then the comparison with
  \<^verbatim>\<open>self.id\<close>; then the two assignments inside one \<^verbatim>\<open>try\<close>, the first of which
  has taken effect when the second raises.
\<close>

definition got_data :: "(string \<Rightarrow> 'f option) \<Rightarrow> 'f handler" where
  "got_data pf d s =
     (case split_str CHR '':'' d of
        [id', temperature', humidity'] \<Rightarrow>
          (let changed =
                 (if id_sensor s \<noteq> Some id' then [Debug_id_changed (id_sensor s) id']
                  else [])
           in case pf temperature' of
                None \<Rightarrow> (False, s, changed @ [Debug_float_error d ValueError, Sleep])
              | Some t \<Rightarrow>
                 (case pf humidity' of
                    None \<Rightarrow>
                      (False, s\<lparr>temperature := Some t\<rparr>,
                       changed @ [Debug_float_error d ValueError, Sleep])
                  | Some h \<Rightarrow>
                      (True, s\<lparr>temperature := Some t, humidity := Some h\<rparr>,
                       changed @ [Data_measurement id' temperature' humidity'])))
      | _ \<Rightarrow> (False, s, [Debug_got_data d ValueError, Sleep]))"

definition got_error :: "'f handler" where
  "got_error e s = (False, s, [Debug_error (id_sensor s) e])"

text \<open>The dictionary \<^verbatim>\<open>self.dispatch\<close>: a lookup of a missing key is \<open>None\<close>.\<close>

definition dispatch :: "(string \<Rightarrow> 'f option) \<Rightarrow> string \<Rightarrow> 'f handler option" where
  "dispatch pf =
     [''I:'' \<mapsto> got_info, ''D:'' \<mapsto> got_data pf, ''E:'' \<mapsto> got_error]"

text \<open>
  \<^verbatim>\<open>read\<close>: the argument is what \<^verbatim>\<open>self.fd.readline()\<close> does, raising or
  returning bytes. Only the call of \<^verbatim>\<open>readline\<close> is inside the \<^verbatim>\<open>try\<close>; the
  decoding is after it.
\<close>

definition read :: "pyexn + string \<Rightarrow> 'f sensor \<Rightarrow> pyexn + ('f sensor \<times> event list)" where
  "read rl s =
     (let s0 = s\<lparr>line := None\<rparr>
      in case rl of
           Inl ex \<Rightarrow> Inr (s0, [Debug_get_data ex, Sleep])
         | Inr data_rd \<Rightarrow>
             (case decode_ascii data_rd of
                Inl ex \<Rightarrow> Inl ex
              | Inr l \<Rightarrow> Inr (s0\<lparr>line := Some (strip l)\<rparr>, [])))"

text \<open>
  \<^verbatim>\<open>process\<close>: the lookup \<^verbatim>\<open>self.dispatch[m_type]\<close> raises \<^verbatim>\<open>KeyError\<close> for a
  tag that is no key; the handlers catch what they raise themselves.
\<close>

definition process :: "(string \<Rightarrow> 'f option) \<Rightarrow> 'f sensor \<Rightarrow> bool \<times> 'f sensor \<times> event list" where
  "process pf s =
     (case line s of
        None \<Rightarrow> (False, s, [])
      | Some l \<Rightarrow>
          (let m_type = take 2 l; message = drop 2 l
           in case dispatch pf m_type of
                Some handler \<Rightarrow> handler message s
              | None \<Rightarrow> (False, s, [Debug_invalid (KeyError m_type) l, Sleep])))"

subsection \<open>The main loop\<close>

text \<open>
  The two configuration values the loop reads, the point it hands to
  \<^verbatim>\<open>dbfd.write_points\<close>, and what the environment does in one iteration: the outcome of
  \<^verbatim>\<open>readline\<close>, the text of \<^verbatim>\<open>time.ctime()\<close>, and whether \<^verbatim>\<open>write_points\<close>
  raises on a point.
\<close>

record config =
  table :: string
  location :: string

record 'f point =
  measurement :: string
  tag_location :: string
  time :: string
  field_temperature :: "'f option"
  field_humidity :: "'f option"

record 'f env =
  readline :: "pyexn + string"
  ctime :: string
  write_points :: "'f point \<Rightarrow> pyexn option"

definition json_point :: "config \<Rightarrow> string \<Rightarrow> 'f sensor \<Rightarrow> 'f point" where
  "json_point cfg datetime s =
     \<lparr>measurement = table cfg, tag_location = location cfg, time = datetime,
      field_temperature = temperature s, field_humidity = humidity s\<rparr>"

text \<open>
  One iteration of \<^verbatim>\<open>while True\<close>. The result is the exception that leaves the loop,
  or the sensor after the iteration, the events of the iteration and the points the
  database accepted.
\<close>

definition loop_body ::
  "(string \<Rightarrow> 'f option) \<Rightarrow> config \<Rightarrow> 'f env \<Rightarrow> 'f sensor
     \<Rightarrow> pyexn + ('f sensor \<times> event list \<times> 'f point list)" where
  "loop_body pf cfg e s =
     (case read (readline e) s of
        Inl ex \<Rightarrow> Inl ex
      | Inr (s1, ev1) \<Rightarrow>
          (let datetime = ctime e
           in case process pf s1 of
                (ret, s2, ev2) \<Rightarrow>
                  if ret then
                    (let json = json_point cfg datetime s2
                     in case write_points e json of
                          None \<Rightarrow> Inr (s2, ev1 @ ev2, [json])
                        | Some ex \<Rightarrow> Inr (s2, ev1 @ ev2 @ [Debug_influxdb ex, Sleep], []))
                  else Inr (s2, ev1 @ ev2, [])))"

text \<open>
  The loop over the first iterations, one per element of the list: it stops at the first
  exception that leaves an iteration, as the process would.
\<close>

fun main_loop ::
  "(string \<Rightarrow> 'f option) \<Rightarrow> config \<Rightarrow> 'f env list \<Rightarrow> 'f sensor
     \<Rightarrow> pyexn + ('f sensor \<times> event list \<times> 'f point list)" where
  "main_loop pf cfg [] s = Inr (s, [], [])"
| "main_loop pf cfg (e # es) s =
     (case loop_body pf cfg e s of
        Inl ex \<Rightarrow> Inl ex
      | Inr (s1, ev1, w1) \<Rightarrow>
          (case main_loop pf cfg es s1 of
             Inl ex \<Rightarrow> Inl ex
           | Inr (s2, ev2, w2) \<Rightarrow> Inr (s2, ev1 @ ev2, w1 @ w2)))"

subsection \<open>A decimal reader for closed examples\<close>

text \<open>
  The theorems below hold for every parser \<open>pf\<close>. Closed examples need one: this is
  \<^verbatim>\<open>float\<close> on the plain decimal texts \<^verbatim>\<open>[+-]digits[.digits]\<close> (digits on at least
  one side of the point), read as a rational number. On such a text whose value a binary
  float holds exactly (20.0, 50.0, 21.5, 48.0) it is the value of \<^verbatim>\<open>float\<close>, and on a
  text with a letter other than an exponent, such as \<^verbatim>\<open>abc\<close>, both reject.
\<close>

definition is_digit :: "char \<Rightarrow> bool" where
  "is_digit c = (let n = (of_char c :: nat) in 48 \<le> n \<and> n \<le> 57)"

definition digits_value :: "string \<Rightarrow> nat" where
  "digits_value ds = foldl (\<lambda>n c. 10 * n + (of_char c - 48)) 0 ds"

definition unsigned_decimal :: "string \<Rightarrow> rat option" where
  "unsigned_decimal t =
     (let ip = takeWhile is_digit t; rest = dropWhile is_digit t
      in case rest of
           [] \<Rightarrow> if ip = [] then None else Some (of_nat (digits_value ip))
         | c # fp \<Rightarrow>
             if c = CHR ''.'' \<and> list_all is_digit fp \<and> (ip \<noteq> [] \<or> fp \<noteq> [])
             then Some (of_nat (digits_value ip)
                        + of_nat (digits_value fp) / of_nat (10 ^ length fp))
             else None)"

definition float_decimal :: "string \<Rightarrow> rat option" where
  "float_decimal t =
     (case t of
        [] \<Rightarrow> None
      | c # r \<Rightarrow>
          if c = CHR ''-'' then map_option uminus (unsigned_decimal r)
          else if c = CHR ''+'' then unsigned_decimal r
          else unsigned_decimal t)"

section \<open>Properties\<close>

subsection \<open>Facts about the handlers shared by the theorems\<close>

lemma dispatch_unknown:
  "m \<noteq> ''I:'' \<Longrightarrow> m \<noteq> ''D:'' \<Longrightarrow> m \<noteq> ''E:'' \<Longrightarrow> dispatch pf m = None"
  by (simp add: dispatch_def)

lemma dispatch_I: "dispatch pf ''I:'' = Some got_info"
  by (simp add: dispatch_def)

lemma dispatch_D: "dispatch pf ''D:'' = Some (got_data pf)"
  by (simp add: dispatch_def)

lemma dispatch_E: "dispatch pf ''E:'' = Some got_error"
  by (simp add: dispatch_def)

lemma process_line:
  "line s = Some l \<Longrightarrow>
   process pf s =
     (case dispatch pf (take 2 l) of
        Some handler \<Rightarrow> handler (drop 2 l) s
      | None \<Rightarrow> (False, s, [Debug_invalid (KeyError (take 2 l)) l, Sleep]))"
  by (simp add: process_def Let_def)

lemma process_no_line: "line s = None \<Longrightarrow> process pf s = (False, s, [])"
  by (simp add: process_def)

lemma read_raises:
  "read (Inl ex) s = Inr (s\<lparr>line := None\<rparr>, [Debug_get_data ex, Sleep])"
  by (simp add: read_def)

lemma loop_body_no_reading:
  "read (readline e) s = Inr (s1, ev1) \<Longrightarrow> process pf s1 = (False, s2, ev2) \<Longrightarrow>
   loop_body pf cfg e s = Inr (s2, ev1 @ ev2, [])"
  by (simp add: loop_body_def)

lemma loop_body_reading:
  "read (readline e) s = Inr (s1, ev1) \<Longrightarrow> process pf s1 = (True, s2, ev2) \<Longrightarrow>
   loop_body pf cfg e s =
     (case write_points e (json_point cfg (ctime e) s2) of
        None \<Rightarrow> Inr (s2, ev1 @ ev2, [json_point cfg (ctime e) s2])
      | Some ex \<Rightarrow> Inr (s2, ev1 @ ev2 @ [Debug_influxdb ex, Sleep], []))"
  by (simp add: loop_body_def Let_def)

lemma split_str_no_sep: "c \<notin> set a \<Longrightarrow> split_str c a = [a]"
  by (induction a) auto

lemma split_str_field: "c \<notin> set a \<Longrightarrow> split_str c (a @ c # r) = a # split_str c r"
  by (induction a) auto

lemma split_str_three:
  "c \<notin> set i \<Longrightarrow> c \<notin> set t \<Longrightarrow> c \<notin> set h \<Longrightarrow>
   split_str c (i @ c # t @ c # h) = [i, t, h]"
  by (simp add: split_str_field split_str_no_sep)

lemma got_data_fields:
  "split_str CHR '':'' d = [i, t, h] \<Longrightarrow>
   got_data pf d s =
     (let changed =
            (if id_sensor s \<noteq> Some i then [Debug_id_changed (id_sensor s) i] else [])
      in case pf t of
           None \<Rightarrow> (False, s, changed @ [Debug_float_error d ValueError, Sleep])
         | Some x \<Rightarrow>
            (case pf h of
               None \<Rightarrow>
                 (False, s\<lparr>temperature := Some x\<rparr>,
                  changed @ [Debug_float_error d ValueError, Sleep])
             | Some y \<Rightarrow>
                 (True, s\<lparr>temperature := Some x, humidity := Some y\<rparr>,
                  changed @ [Data_measurement i t h])))"
  by (simp add: got_data_def)

lemma process_D:
  "process pf (s\<lparr>line := Some (CHR ''D'' # CHR '':'' # d)\<rparr>)
     = got_data pf d (s\<lparr>line := Some (CHR ''D'' # CHR '':'' # d)\<rparr>)"
  by (simp add: process_def dispatch_D)

lemma process_I:
  "process pf (s\<lparr>line := Some (CHR ''I'' # CHR '':'' # d)\<rparr>)
     = got_info d (s\<lparr>line := Some (CHR ''I'' # CHR '':'' # d)\<rparr>)"
  by (simp add: process_def dispatch_I)

lemma process_E:
  "process pf (s\<lparr>line := Some (CHR ''E'' # CHR '':'' # d)\<rparr>)
     = got_error d (s\<lparr>line := Some (CHR ''E'' # CHR '':'' # d)\<rparr>)"
  by (simp add: process_def dispatch_E)

lemma got_data_frame:
  "got_data pf d s = (r, s', ev) \<Longrightarrow>
   id_sensor s' = id_sensor s \<and> ver s' = ver s \<and> scale s' = scale s \<and> line s' = line s"
  by (auto simp: got_data_def Let_def split: list.splits option.splits)

lemma float_decimal_examples:
  "float_decimal ''20.0'' = Some 20"
  "float_decimal ''50.0'' = Some 50"
  "float_decimal ''21.5'' = Some (43 / 2)"
  "float_decimal ''48.0'' = Some 48"
  "float_decimal ''abc'' = None"
  by (simp_all add: float_decimal_def unsigned_decimal_def is_digit_def digits_value_def)

subsection \<open>Unknown tags\<close>

text \<open>
  Claim C5. A line whose first two characters are none of \<^verbatim>\<open>I:\<close>, \<^verbatim>\<open>D:\<close>,
  \<^verbatim>\<open>E:\<close> (a line of fewer than two characters is its own tag, \<open>take 2 l = l\<close>, and
  is among them) produces no reading: \<open>process\<close> returns \<open>False\<close>, leaves the sensor
  as it is, and records the event of the \<^verbatim>\<open>KeyError\<close> branch, the invalid-data debug
  message with the line, followed by the pause. The line is not fatal: the iteration of
  the loop that read it ends without an exception and without a point written.
\<close>

theorem unknown_tag_is_malformed:
  assumes "line s = Some l" and "take 2 l \<notin> {''I:'', ''D:'', ''E:''}"
  shows "process pf s = (False, s, [Debug_invalid (KeyError (take 2 l)) l, Sleep])
       \<and> (read (readline e) s0 = Inr (s, ev) \<longrightarrow>
            loop_body pf cfg e s0
              = Inr (s, ev @ [Debug_invalid (KeyError (take 2 l)) l, Sleep], []))"
proof -
  from assms(2) have "dispatch pf (take 2 l) = None"
    by (intro dispatch_unknown) auto
  with assms(1) have p: "process pf s = (False, s, [Debug_invalid (KeyError (take 2 l)) l, Sleep])"
    by (simp add: process_line)
  then show ?thesis
    by (simp add: loop_body_no_reading)
qed

theorem unknown_tag_is_malformed_witness:
  "process float_decimal ((Sensor_init ''/dev/ttyUSB0'' 9600)\<lparr>line := Some ''X''\<rparr>)
     = (False, (Sensor_init ''/dev/ttyUSB0'' 9600)\<lparr>line := Some ''X''\<rparr>,
        [Debug_invalid (KeyError ''X'') ''X'', Sleep])
   \<and> loop_body float_decimal \<lparr>table = ''climate'', location = ''attic''\<rparr>
        \<lparr>readline = Inr [CHR ''X'', CHR 0x0A], ctime = ''Wed Nov  4 14:41:00 2026'',
         write_points = (\<lambda>p. None)\<rparr>
        (Sensor_init ''/dev/ttyUSB0'' 9600)
     = Inr ((Sensor_init ''/dev/ttyUSB0'' 9600)\<lparr>line := Some ''X''\<rparr>,
            [Debug_invalid (KeyError ''X'') ''X'', Sleep], [])"
  using unknown_tag_is_malformed
    [where s = "(Sensor_init ''/dev/ttyUSB0'' 9600)\<lparr>line := Some ''X''\<rparr>"
       and l = "''X''" and pf = float_decimal
       and e = "\<lparr>readline = Inr [CHR ''X'', CHR 0x0A],
                 ctime = ''Wed Nov  4 14:41:00 2026'', write_points = (\<lambda>p. None)\<rparr>"
       and ?s0.0 = "Sensor_init ''/dev/ttyUSB0'' 9600" and ev = "[]"
       and cfg = "\<lparr>table = ''climate'', location = ''attic''\<rparr>"]
  by (simp add: read_def decode_ascii_def strip_def is_space_def Sensor_init_def)

subsection \<open>A failed read\<close>

text \<open>
  Claim C8. In an iteration whose \<^verbatim>\<open>readline\<close> raises, \<open>read\<close> records the debug
  message and the pause and leaves \<^verbatim>\<open>self.line\<close> at \<open>None\<close>; \<open>process\<close> then
  returns \<open>False\<close> at its first test, before the dispatch table is consulted, with no
  event of its own. The iteration ends without an exception and without a point. The
  sensor after it is the sensor before it with the line buffer reset: identity,
  temperature and humidity are as they were.
\<close>

theorem transport_error_skips_dispatch:
  assumes "readline e = Inl ex"
  shows "read (readline e) s = Inr (s\<lparr>line := None\<rparr>, [Debug_get_data ex, Sleep])
       \<and> process pf (s\<lparr>line := None\<rparr>) = (False, s\<lparr>line := None\<rparr>, [])
       \<and> loop_body pf cfg e s = Inr (s\<lparr>line := None\<rparr>, [Debug_get_data ex, Sleep], [])"
proof -
  have r: "read (readline e) s = Inr (s\<lparr>line := None\<rparr>, [Debug_get_data ex, Sleep])"
    using assms by (simp add: read_raises)
  have p: "process pf (s\<lparr>line := None\<rparr>) = (False, s\<lparr>line := None\<rparr>, [])"
    by (simp add: process_no_line)
  from r p show ?thesis
    using loop_body_no_reading [OF r p] by simp
qed

theorem transport_error_skips_dispatch_witness:
  "loop_body float_decimal \<lparr>table = ''climate'', location = ''attic''\<rparr>
     \<lparr>readline = Inl (External ''device disconnected''),
      ctime = ''Wed Nov  4 14:41:00 2026'', write_points = (\<lambda>p. None)\<rparr>
     \<lparr>id_sensor = Some ''7'', ver = Some ''2.1'', scale = Some ''C'',
      serial_port = ''/dev/ttyUSB0'', serial_speed = 9600,
      line = Some ''D:7:21.5:48.0'', temperature = Some (43 / 2), humidity = Some 48\<rparr>
   = Inr (\<lparr>id_sensor = Some ''7'', ver = Some ''2.1'', scale = Some ''C'',
           serial_port = ''/dev/ttyUSB0'', serial_speed = 9600,
           line = None, temperature = Some (43 / 2), humidity = Some 48\<rparr>,
          [Debug_get_data (External ''device disconnected''), Sleep], [])"
  using transport_error_skips_dispatch
    [where e = "\<lparr>readline = Inl (External ''device disconnected''),
                 ctime = ''Wed Nov  4 14:41:00 2026'', write_points = (\<lambda>p. None)\<rparr>"
       and ex = "External ''device disconnected''" and pf = float_decimal
       and cfg = "\<lparr>table = ''climate'', location = ''attic''\<rparr>"
       and s = "\<lparr>id_sensor = Some ''7'', ver = Some ''2.1'', scale = Some ''C'',
                 serial_port = ''/dev/ttyUSB0'', serial_speed = 9600,
                 line = Some ''D:7:21.5:48.0'', temperature = Some (43 / 2),
                 humidity = Some 48\<rparr>"]
  by simp

subsection \<open>The boot announcement\<close>

text \<open>
  Claim C9. From any sensor, the line \<^verbatim>\<open>I:boot:C:42:1.0\<close> makes \<open>process\<close>
  return \<open>False\<close> (no reading) and leaves scale \<open>C\<close>, id \<open>42\<close> and version \<open>1.0\<close>
  stored; dispatching the same line again from the sensor so reached returns \<open>False\<close>
  again and leaves exactly that sensor. Each dispatch records the one boot debug message.
\<close>

theorem info_twice_idempotent:
  "process pf (s\<lparr>line := Some ''I:boot:C:42:1.0''\<rparr>)
     = (False,
        s\<lparr>line := Some ''I:boot:C:42:1.0'', scale := Some ''C'',
          id_sensor := Some ''42'', ver := Some ''1.0''\<rparr>,
        [Debug_boot ''C'' ''42'' ''1.0''])
   \<and> process pf
        (s\<lparr>line := Some ''I:boot:C:42:1.0'', scale := Some ''C'',
           id_sensor := Some ''42'', ver := Some ''1.0''\<rparr>)
     = (False,
        s\<lparr>line := Some ''I:boot:C:42:1.0'', scale := Some ''C'',
          id_sensor := Some ''42'', ver := Some ''1.0''\<rparr>,
        [Debug_boot ''C'' ''42'' ''1.0''])"
  by (simp add: process_def dispatch_I got_info_def)

subsection \<open>Who writes the identity fields\<close>

lemma process_not_info_frame:
  assumes "process pf s = (r, s', ev)" and "\<forall>l. line s = Some l \<longrightarrow> take 2 l \<noteq> ''I:''"
  shows "id_sensor s' = id_sensor s \<and> ver s' = ver s \<and> scale s' = scale s"
proof (cases "line s")
  case None
  with assms(1) show ?thesis by (simp add: process_def)
next
  case (Some l)
  with assms(2) have ni: "take 2 l \<noteq> ''I:''" by simp
  show ?thesis
  proof (cases "take 2 l = ''D:''")
    case True
    with Some assms(1) have "got_data pf (drop 2 l) s = (r, s', ev)"
      by (simp add: process_line dispatch_D)
    then show ?thesis by (simp add: got_data_frame)
  next
    case nd: False
    show ?thesis
    proof (cases "take 2 l = ''E:''")
      case True
      with Some assms(1) show ?thesis
        by (auto simp add: process_line dispatch_E got_error_def)
    next
      case False
      with ni nd have "dispatch pf (take 2 l) = None" by (simp add: dispatch_unknown)
      with Some assms(1) show ?thesis by (auto simp add: process_line)
    qed
  qed
qed

text \<open>
  Claim C10. Whatever the payload \<open>d\<close> of a data line \<^verbatim>\<open>D:\<close>\<open>d\<close> (any number of
  fields, numbers or not, the stored id or another), the sensor \<open>process\<close> returns has
  the id, version and scale it had. The same holds for every line whose tag is not
  \<^verbatim>\<open>I:\<close>: only \<open>got_info\<close> assigns these three fields.
\<close>

theorem data_message_keeps_identity:
  "(process pf (s\<lparr>line := Some (''D:'' @ d)\<rparr>) = (r, s', ev) \<longrightarrow>
      id_sensor s' = id_sensor s \<and> ver s' = ver s \<and> scale s' = scale s)
   \<and> (take 2 l \<noteq> ''I:'' \<and> process pf (s\<lparr>line := Some l\<rparr>) = (r, s', ev) \<longrightarrow>
      id_sensor s' = id_sensor s \<and> ver s' = ver s \<and> scale s' = scale s)"
  using process_not_info_frame [of pf "s\<lparr>line := Some (''D:'' @ d)\<rparr>" r s' ev]
        process_not_info_frame [of pf "s\<lparr>line := Some l\<rparr>" r s' ev]
  by simp

theorem data_message_keeps_identity_witness:
  "take 2 ''D:9:21.5:abc'' \<noteq> ''I:''
   \<and> process float_decimal
       \<lparr>id_sensor = Some ''7'', ver = Some ''2.1'', scale = Some ''C'',
        serial_port = ''/dev/ttyUSB0'', serial_speed = 9600,
        line = Some ''D:9:21.5:abc'', temperature = Some 70, humidity = Some 40\<rparr>
     = (False,
        \<lparr>id_sensor = Some ''7'', ver = Some ''2.1'', scale = Some ''C'',
         serial_port = ''/dev/ttyUSB0'', serial_speed = 9600,
         line = Some ''D:9:21.5:abc'', temperature = Some (43 / 2), humidity = Some 40\<rparr>,
        [Debug_id_changed (Some ''7'') ''9'',
         Debug_float_error ''9:21.5:abc'' ValueError, Sleep])"
  using data_message_keeps_identity
    [where pf = float_decimal and d = "''9:21.5:abc''" and l = "''D:9:21.5:abc''"
       and r = False
       and s = "\<lparr>id_sensor = Some ''7'', ver = Some ''2.1'', scale = Some ''C'',
                 serial_port = ''/dev/ttyUSB0'', serial_speed = 9600,
                 line = None, temperature = Some 70, humidity = Some 40\<rparr>"
       and s' = "\<lparr>id_sensor = Some ''7'', ver = Some ''2.1'', scale = Some ''C'',
                  serial_port = ''/dev/ttyUSB0'', serial_speed = 9600,
                  line = Some ''D:9:21.5:abc'', temperature = Some (43 / 2),
                  humidity = Some 40\<rparr>"
       and ev = "[Debug_id_changed (Some ''7'') ''9'',
                  Debug_float_error ''9:21.5:abc'' ValueError, Sleep]"]
  by (simp add: process_def dispatch_D got_data_def float_decimal_examples)

subsection \<open>A failed write to the database\<close>

text \<open>
  Claim C7. When \<open>process\<close> has returned \<open>True\<close> and \<^verbatim>\<open>write_points\<close> raises, the
  iteration records the influxdb debug message and the pause, writes no point, and ends
  without an exception. The sensor it leaves is the one a successful write leaves, so
  nothing of the failed write is kept for later: the loop goes on with the remaining
  iterations from that sensor, and the points of the whole run are those of the
  remaining iterations.
\<close>

theorem sink_failure_drops_and_continues:
  assumes "read (readline e) s = Inr (s1, ev1)"
      and "process pf s1 = (True, s2, ev2)"
      and "write_points e (json_point cfg (ctime e) s2) = Some ex"
  shows "loop_body pf cfg e s = Inr (s2, ev1 @ ev2 @ [Debug_influxdb ex, Sleep], [])
       \<and> loop_body pf cfg (e\<lparr>write_points := (\<lambda>p. None)\<rparr>) s
           = Inr (s2, ev1 @ ev2, [json_point cfg (ctime e) s2])
       \<and> main_loop pf cfg (e # es) s
           = (case main_loop pf cfg es s2 of
                Inl x \<Rightarrow> Inl x
              | Inr (s3, ev3, w3) \<Rightarrow>
                  Inr (s3, (ev1 @ ev2 @ [Debug_influxdb ex, Sleep]) @ ev3, w3))"
proof -
  have b: "loop_body pf cfg e s = Inr (s2, ev1 @ ev2 @ [Debug_influxdb ex, Sleep], [])"
    using assms by (simp add: loop_body_reading)
  have r': "read (readline (e\<lparr>write_points := (\<lambda>p. None)\<rparr>)) s = Inr (s1, ev1)"
    using assms(1) by simp
  have c: "loop_body pf cfg (e\<lparr>write_points := (\<lambda>p. None)\<rparr>) s
             = Inr (s2, ev1 @ ev2, [json_point cfg (ctime e) s2])"
    using loop_body_reading [OF r' assms(2)] by simp
  have m: "main_loop pf cfg (e # es) s
           = (case main_loop pf cfg es s2 of
                Inl x \<Rightarrow> Inl x
              | Inr (s3, ev3, w3) \<Rightarrow>
                  Inr (s3, (ev1 @ ev2 @ [Debug_influxdb ex, Sleep]) @ ev3, w3))"
    by (simp add: b split: sum.splits)
  from b c m show ?thesis by simp
qed

theorem sink_failure_drops_and_continues_witness:
  "main_loop float_decimal \<lparr>table = ''climate'', location = ''attic''\<rparr>
     [\<lparr>readline = Inr (''D:7:21.5:48.0'' @ [CHR 0x0D, CHR 0x0A]),
       ctime = ''Wed Nov  4 14:41:00 2026'',
       write_points = (\<lambda>p. Some (External ''connection refused''))\<rparr>,
      \<lparr>readline = Inr (''D:7:20.0:50.0'' @ [CHR 0x0D, CHR 0x0A]),
       ctime = ''Wed Nov  4 14:41:05 2026'',
       write_points = (\<lambda>p. None)\<rparr>]
     \<lparr>id_sensor = Some ''7'', ver = Some ''2.1'', scale = Some ''C'',
      serial_port = ''/dev/ttyUSB0'', serial_speed = 9600,
      line = None, temperature = None, humidity = None\<rparr>
   = Inr (\<lparr>id_sensor = Some ''7'', ver = Some ''2.1'', scale = Some ''C'',
           serial_port = ''/dev/ttyUSB0'', serial_speed = 9600,
           line = Some ''D:7:20.0:50.0'', temperature = Some 20, humidity = Some 50\<rparr>,
          [Data_measurement ''7'' ''21.5'' ''48.0'',
           Debug_influxdb (External ''connection refused''), Sleep,
           Data_measurement ''7'' ''20.0'' ''50.0''],
          [\<lparr>measurement = ''climate'', tag_location = ''attic'',
            time = ''Wed Nov  4 14:41:05 2026'',
            field_temperature = Some 20, field_humidity = Some 50\<rparr>])"
  using sink_failure_drops_and_continues
    [where pf = float_decimal and cfg = "\<lparr>table = ''climate'', location = ''attic''\<rparr>"
       and e = "\<lparr>readline = Inr (''D:7:21.5:48.0'' @ [CHR 0x0D, CHR 0x0A]),
                 ctime = ''Wed Nov  4 14:41:00 2026'',
                 write_points = (\<lambda>p. Some (External ''connection refused''))\<rparr>"
       and es = "[\<lparr>readline = Inr (''D:7:20.0:50.0'' @ [CHR 0x0D, CHR 0x0A]),
                   ctime = ''Wed Nov  4 14:41:05 2026'',
                   write_points = (\<lambda>p. None)\<rparr>]"
       and s = "\<lparr>id_sensor = Some ''7'', ver = Some ''2.1'', scale = Some ''C'',
                 serial_port = ''/dev/ttyUSB0'', serial_speed = 9600,
                 line = None, temperature = None, humidity = None\<rparr>"
       and ?s1.0 = "\<lparr>id_sensor = Some ''7'', ver = Some ''2.1'', scale = Some ''C'',
                  serial_port = ''/dev/ttyUSB0'', serial_speed = 9600,
                  line = Some ''D:7:21.5:48.0'', temperature = None, humidity = None\<rparr>"
       and ?ev1.0 = "[]"
       and ?s2.0 = "\<lparr>id_sensor = Some ''7'', ver = Some ''2.1'', scale = Some ''C'',
                  serial_port = ''/dev/ttyUSB0'', serial_speed = 9600,
                  line = Some ''D:7:21.5:48.0'', temperature = Some (43 / 2),
                  humidity = Some 48\<rparr>"
       and ?ev2.0 = "[Data_measurement ''7'' ''21.5'' ''48.0'']"
       and ex = "External ''connection refused''"]
  by (simp add: read_def decode_ascii_def strip_def is_space_def process_def dispatch_D
        got_data_def float_decimal_examples loop_body_def json_point_def)

subsection \<open>Bytes that are not ASCII\<close>

lemma loop_body_ascii_returns:
  assumes "case readline e of Inl ex \<Rightarrow> True | Inr bs \<Rightarrow> list_all (\<lambda>b. (of_char b :: nat) < 128) bs"
  shows "\<exists>r. loop_body pf cfg e s = Inr r"
  using assms
  by (cases "readline e")
     (auto simp add: loop_body_def read_def decode_ascii_def Let_def split: prod.splits option.splits)

text \<open>
  Claim C3. The claim fails on the code. When \<^verbatim>\<open>readline\<close> returns the two bytes
  \<open>0xFF 0x0A\<close>, \<^verbatim>\<open>data_rd.decode('ascii')\<close> raises \<^verbatim>\<open>UnicodeDecodeError\<close>
  after the \<^verbatim>\<open>try\<close> of \<open>read\<close> has ended; nothing in \<open>read\<close> or in the loop catches
  it, so it leaves the iteration and ends the loop, whatever the sensor, the
  configuration and the later input. (By \<open>loop_body_ascii_returns\<close> an iteration whose
  bytes are all below 128, or whose \<^verbatim>\<open>readline\<close> raises, does end without an
  exception.)
\<close>

theorem non_ascii_byte_leaves_the_loop:
  "read (Inr [CHR 0xFF, CHR 0x0A]) s = Inl UnicodeDecodeError
   \<and> loop_body pf cfg \<lparr>readline = Inr [CHR 0xFF, CHR 0x0A], ctime = now, write_points = w\<rparr> s
       = Inl UnicodeDecodeError
   \<and> main_loop pf cfg
       (\<lparr>readline = Inr [CHR 0xFF, CHR 0x0A], ctime = now, write_points = w\<rparr> # es) s
       = Inl UnicodeDecodeError"
  by (simp add: read_def decode_ascii_def loop_body_def)

subsection \<open>Data lines whose numbers do not parse\<close>

text \<open>
  Claim C1, as amended. For a data payload of exactly three fields of which the
  temperature text or the humidity text is no float, \<open>process\<close> returns \<open>False\<close> (no
  reading), records the float-error debug message and the pause (after the id-changed
  message when the ids differ), and leaves id, version, scale and humidity as they were.
  The temperature is as it was when the temperature text is no float; when the
  temperature text is a float and only the humidity text is not, the temperature is
  overwritten with the parsed temperature.
\<close>

theorem data_float_failure_state:
  assumes "split_str CHR '':'' d = [i, t, h]" and "pf t = None \<or> pf h = None"
  shows "process pf (s\<lparr>line := Some (''D:'' @ d)\<rparr>)
     = (False,
        (case pf t of
           None \<Rightarrow> s\<lparr>line := Some (''D:'' @ d)\<rparr>
         | Some x \<Rightarrow> s\<lparr>line := Some (''D:'' @ d), temperature := Some x\<rparr>),
        (if id_sensor s \<noteq> Some i then [Debug_id_changed (id_sensor s) i] else [])
          @ [Debug_float_error d ValueError, Sleep])"
proof (cases "pf t")
  case None
  then show ?thesis
    using assms(1) by (simp add: process_D got_data_fields)
next
  case (Some x)
  with assms(2) have "pf h = None" by simp
  with Some show ?thesis
    using assms(1) by (simp add: process_D got_data_fields)
qed

theorem data_float_failure_state_witness:
  "process float_decimal
     \<lparr>id_sensor = Some ''7'', ver = Some ''2.1'', scale = Some ''C'',
      serial_port = ''/dev/ttyUSB0'', serial_speed = 9600,
      line = Some ''D:7:abc:48.0'', temperature = Some 70, humidity = Some 40\<rparr>
   = (False,
      \<lparr>id_sensor = Some ''7'', ver = Some ''2.1'', scale = Some ''C'',
       serial_port = ''/dev/ttyUSB0'', serial_speed = 9600,
       line = Some ''D:7:abc:48.0'', temperature = Some 70, humidity = Some 40\<rparr>,
      [Debug_float_error ''7:abc:48.0'' ValueError, Sleep])"
  using data_float_failure_state
    [where d = "''7:abc:48.0''" and i = "''7''" and t = "''abc''" and h = "''48.0''"
       and pf = float_decimal
       and s = "\<lparr>id_sensor = Some ''7'', ver = Some ''2.1'', scale = Some ''C'',
                 serial_port = ''/dev/ttyUSB0'', serial_speed = 9600,
                 line = None, temperature = Some 70, humidity = Some 40\<rparr>"]
  by (simp add: float_decimal_examples)

text \<open>
  The claim as stated fails: with temperature 70 stored, the payload \<^verbatim>\<open>7:21.5:abc\<close>
  produces no reading and leaves temperature 21.5 stored.
\<close>

theorem humidity_failure_overwrites_temperature:
  "process float_decimal
     \<lparr>id_sensor = Some ''7'', ver = Some ''2.1'', scale = Some ''C'',
      serial_port = ''/dev/ttyUSB0'', serial_speed = 9600,
      line = Some ''D:7:21.5:abc'', temperature = Some 70, humidity = Some 40\<rparr>
   = (False,
      \<lparr>id_sensor = Some ''7'', ver = Some ''2.1'', scale = Some ''C'',
       serial_port = ''/dev/ttyUSB0'', serial_speed = 9600,
       line = Some ''D:7:21.5:abc'', temperature = Some (43 / 2), humidity = Some 40\<rparr>,
      [Debug_float_error ''7:21.5:abc'' ValueError, Sleep])
   \<and> Some (43 / 2) \<noteq> Some (70 :: rat)"
  by (simp add: process_def dispatch_D got_data_def float_decimal_examples)

subsection \<open>Data lines with another id\<close>

text \<open>
  Claim C2, as amended. For a data payload of three fields with two floats and an id
  other than the stored one, \<open>process\<close> records the id-changed debug message, stores the
  two parsed values and returns \<open>True\<close>; the stored id is not written: afterwards it is
  the id stored before, and not the id of the message.
\<close>

theorem data_id_mismatch_keeps_stored_id:
  assumes "split_str CHR '':'' d = [i, t, h]"
      and "pf t = Some x" and "pf h = Some y"
      and "id_sensor s \<noteq> Some i"
  shows "process pf (s\<lparr>line := Some (''D:'' @ d)\<rparr>)
     = (True,
        s\<lparr>line := Some (''D:'' @ d), temperature := Some x, humidity := Some y\<rparr>,
        [Debug_id_changed (id_sensor s) i, Data_measurement i t h])
   \<and> id_sensor (s\<lparr>line := Some (''D:'' @ d), temperature := Some x, humidity := Some y\<rparr>)
       = id_sensor s
   \<and> id_sensor (s\<lparr>line := Some (''D:'' @ d), temperature := Some x, humidity := Some y\<rparr>)
       \<noteq> Some i"
  using assms by (simp add: process_D got_data_fields)

theorem data_id_mismatch_keeps_stored_id_witness:
  "process float_decimal
     \<lparr>id_sensor = Some ''7'', ver = Some ''2.1'', scale = Some ''C'',
      serial_port = ''/dev/ttyUSB0'', serial_speed = 9600,
      line = Some ''D:8:20.0:48.0'', temperature = None, humidity = None\<rparr>
   = (True,
      \<lparr>id_sensor = Some ''7'', ver = Some ''2.1'', scale = Some ''C'',
       serial_port = ''/dev/ttyUSB0'', serial_speed = 9600,
       line = Some ''D:8:20.0:48.0'', temperature = Some 20, humidity = Some 48\<rparr>,
      [Debug_id_changed (Some ''7'') ''8'', Data_measurement ''8'' ''20.0'' ''48.0''])"
  using data_id_mismatch_keeps_stored_id
    [where d = "''8:20.0:48.0''" and i = "''8''" and t = "''20.0''" and h = "''48.0''"
       and pf = float_decimal and x = 20 and y = 48
       and s = "\<lparr>id_sensor = Some ''7'', ver = Some ''2.1'', scale = Some ''C'',
                 serial_port = ''/dev/ttyUSB0'', serial_speed = 9600,
                 line = None, temperature = None, humidity = None\<rparr>"]
  by (simp add: float_decimal_examples)

text \<open>
  The claim as stated fails: with id \<open>42\<close> stored, the line \<^verbatim>\<open>D:43:21.5:48.0\<close>
  leaves id \<open>42\<close> stored.
\<close>

theorem data_does_not_overwrite_id:
  "process float_decimal
     \<lparr>id_sensor = Some ''42'', ver = Some ''1.0'', scale = Some ''C'',
      serial_port = ''/dev/ttyUSB0'', serial_speed = 9600,
      line = Some ''D:43:21.5:48.0'', temperature = None, humidity = None\<rparr>
   = (True,
      \<lparr>id_sensor = Some ''42'', ver = Some ''1.0'', scale = Some ''C'',
       serial_port = ''/dev/ttyUSB0'', serial_speed = 9600,
       line = Some ''D:43:21.5:48.0'', temperature = Some (43 / 2), humidity = Some 48\<rparr>,
      [Debug_id_changed (Some ''42'') ''43'', Data_measurement ''43'' ''21.5'' ''48.0''])
   \<and> Some ''42'' \<noteq> Some ''43''"
  by (simp add: process_def dispatch_D got_data_def float_decimal_examples)

subsection \<open>Well-formed data lines\<close>

text \<open>
  Claim C4, as amended. For a line \<^verbatim>\<open>D:\<close>\<open>i\<close>\<^verbatim>\<open>:\<close>\<open>t\<close>\<^verbatim>\<open>:\<close>\<open>h\<close> whose three
  fields hold no colon and whose \<open>t\<close> and \<open>h\<close> are floats with values \<open>x\<close> and \<open>y\<close>,
  \<open>process\<close> returns \<open>True\<close> with \<open>x\<close> and \<open>y\<close> stored as temperature and humidity,
  and records the data message with \<open>i\<close>, \<open>t\<close>, \<open>h\<close> (after the id-changed message when
  \<open>i\<close> is not the stored id). \<open>process\<close> returns a value on every input: no exception
  leaves it. The point the loop hands to the database has the configured table and
  location, the time, and \<open>x\<close> and \<open>y\<close> as its fields; it has no field for the id
  \<open>i\<close>, which appears in the log events only.
\<close>

theorem data_line_forwards_parsed_values:
  assumes "CHR '':'' \<notin> set i" and "CHR '':'' \<notin> set t" and "CHR '':'' \<notin> set h"
      and "pf t = Some x" and "pf h = Some y"
  shows "process pf (s\<lparr>line := Some (''D:'' @ i @ '':'' @ t @ '':'' @ h)\<rparr>)
     = (True,
        s\<lparr>line := Some (''D:'' @ i @ '':'' @ t @ '':'' @ h),
          temperature := Some x, humidity := Some y\<rparr>,
        (if id_sensor s \<noteq> Some i then [Debug_id_changed (id_sensor s) i] else [])
          @ [Data_measurement i t h])
   \<and> (read (readline e) s0
         = Inr (s\<lparr>line := Some (''D:'' @ i @ '':'' @ t @ '':'' @ h)\<rparr>, [])
       \<and> write_points e
           \<lparr>measurement = table cfg, tag_location = location cfg, time = ctime e,
            field_temperature = Some x, field_humidity = Some y\<rparr> = None
      \<longrightarrow> loop_body pf cfg e s0
         = Inr (s\<lparr>line := Some (''D:'' @ i @ '':'' @ t @ '':'' @ h),
                  temperature := Some x, humidity := Some y\<rparr>,
                (if id_sensor s \<noteq> Some i then [Debug_id_changed (id_sensor s) i] else [])
                  @ [Data_measurement i t h],
                [\<lparr>measurement = table cfg, tag_location = location cfg, time = ctime e,
                  field_temperature = Some x, field_humidity = Some y\<rparr>]))"
proof -
  have f: "split_str CHR '':'' (i @ CHR '':'' # t @ CHR '':'' # h) = [i, t, h]"
    using assms(1-3) by (rule split_str_three)
  have p: "process pf (s\<lparr>line := Some (''D:'' @ i @ '':'' @ t @ '':'' @ h)\<rparr>)
     = (True,
        s\<lparr>line := Some (''D:'' @ i @ '':'' @ t @ '':'' @ h),
          temperature := Some x, humidity := Some y\<rparr>,
        (if id_sensor s \<noteq> Some i then [Debug_id_changed (id_sensor s) i] else [])
          @ [Data_measurement i t h])"
    using assms(4,5) by (simp add: process_D got_data_fields [OF f])
  show ?thesis
  proof (intro conjI impI)
    show "process pf (s\<lparr>line := Some (''D:'' @ i @ '':'' @ t @ '':'' @ h)\<rparr>)
     = (True,
        s\<lparr>line := Some (''D:'' @ i @ '':'' @ t @ '':'' @ h),
          temperature := Some x, humidity := Some y\<rparr>,
        (if id_sensor s \<noteq> Some i then [Debug_id_changed (id_sensor s) i] else [])
          @ [Data_measurement i t h])"
      by (rule p)
  next
    assume a: "read (readline e) s0
         = Inr (s\<lparr>line := Some (''D:'' @ i @ '':'' @ t @ '':'' @ h)\<rparr>, [])
       \<and> write_points e
           \<lparr>measurement = table cfg, tag_location = location cfg, time = ctime e,
            field_temperature = Some x, field_humidity = Some y\<rparr> = None"
    then have r: "read (readline e) s0
         = Inr (s\<lparr>line := Some (''D:'' @ i @ '':'' @ t @ '':'' @ h)\<rparr>, [])" by simp
    from a show "loop_body pf cfg e s0
         = Inr (s\<lparr>line := Some (''D:'' @ i @ '':'' @ t @ '':'' @ h),
                  temperature := Some x, humidity := Some y\<rparr>,
                (if id_sensor s \<noteq> Some i then [Debug_id_changed (id_sensor s) i] else [])
                  @ [Data_measurement i t h],
                [\<lparr>measurement = table cfg, tag_location = location cfg, time = ctime e,
                  field_temperature = Some x, field_humidity = Some y\<rparr>])"
      using loop_body_reading [OF r p, of cfg] by (simp add: json_point_def)
  qed
qed

theorem data_line_forwards_parsed_values_witness:
  "loop_body float_decimal \<lparr>table = ''climate'', location = ''attic''\<rparr>
     \<lparr>readline = Inr (''D:7:21.5:48.0'' @ [CHR 0x0D, CHR 0x0A]),
      ctime = ''Wed Nov  4 14:41:00 2026'', write_points = (\<lambda>p. None)\<rparr>
     \<lparr>id_sensor = Some ''7'', ver = Some ''2.1'', scale = Some ''C'',
      serial_port = ''/dev/ttyUSB0'', serial_speed = 9600,
      line = None, temperature = None, humidity = None\<rparr>
   = Inr (\<lparr>id_sensor = Some ''7'', ver = Some ''2.1'', scale = Some ''C'',
           serial_port = ''/dev/ttyUSB0'', serial_speed = 9600,
           line = Some ''D:7:21.5:48.0'', temperature = Some (43 / 2),
           humidity = Some 48\<rparr>,
          [Data_measurement ''7'' ''21.5'' ''48.0''],
          [\<lparr>measurement = ''climate'', tag_location = ''attic'',
            time = ''Wed Nov  4 14:41:00 2026'',
            field_temperature = Some (43 / 2), field_humidity = Some 48\<rparr>])"
  using data_line_forwards_parsed_values
    [where pf = float_decimal and cfg = "\<lparr>table = ''climate'', location = ''attic''\<rparr>"
       and i = "''7''" and t = "''21.5''" and h = "''48.0''" and x = "43 / 2" and y = 48
       and e = "\<lparr>readline = Inr (''D:7:21.5:48.0'' @ [CHR 0x0D, CHR 0x0A]),
                 ctime = ''Wed Nov  4 14:41:00 2026'', write_points = (\<lambda>p. None)\<rparr>"
       and ?s0.0 = "\<lparr>id_sensor = Some ''7'', ver = Some ''2.1'', scale = Some ''C'',
                 serial_port = ''/dev/ttyUSB0'', serial_speed = 9600,
                 line = None, temperature = None, humidity = None\<rparr>"
       and s = "\<lparr>id_sensor = Some ''7'', ver = Some ''2.1'', scale = Some ''C'',
                 serial_port = ''/dev/ttyUSB0'', serial_speed = 9600,
                 line = None, temperature = None, humidity = None\<rparr>"]
  by (simp add: read_def decode_ascii_def strip_def is_space_def float_decimal_examples)

text \<open>
  The claim as stated fails on the id of the reading: from the same sensor and at the
  same time, the lines \<^verbatim>\<open>D:1:21.5:48.0\<close> and \<^verbatim>\<open>D:2:21.5:48.0\<close> hand the same
  point to the database, and the sensor keeps neither id. The two runs differ in the
  line buffer and in the log events only.
\<close>

theorem forwarded_point_ignores_message_id:
  "loop_body float_decimal \<lparr>table = ''climate'', location = ''attic''\<rparr>
     \<lparr>readline = Inr (''D:1:21.5:48.0'' @ [CHR 0x0A]),
      ctime = ''Wed Nov  4 14:41:00 2026'', write_points = (\<lambda>p. None)\<rparr>
     (Sensor_init ''/dev/ttyUSB0'' 9600)
   = Inr (\<lparr>id_sensor = None, ver = None, scale = None,
           serial_port = ''/dev/ttyUSB0'', serial_speed = 9600,
           line = Some ''D:1:21.5:48.0'', temperature = Some (43 / 2),
           humidity = Some 48\<rparr>,
          [Debug_id_changed None ''1'', Data_measurement ''1'' ''21.5'' ''48.0''],
          [\<lparr>measurement = ''climate'', tag_location = ''attic'',
            time = ''Wed Nov  4 14:41:00 2026'',
            field_temperature = Some (43 / 2), field_humidity = Some 48\<rparr>])
   \<and> loop_body float_decimal \<lparr>table = ''climate'', location = ''attic''\<rparr>
     \<lparr>readline = Inr (''D:2:21.5:48.0'' @ [CHR 0x0A]),
      ctime = ''Wed Nov  4 14:41:00 2026'', write_points = (\<lambda>p. None)\<rparr>
     (Sensor_init ''/dev/ttyUSB0'' 9600)
   = Inr (\<lparr>id_sensor = None, ver = None, scale = None,
           serial_port = ''/dev/ttyUSB0'', serial_speed = 9600,
           line = Some ''D:2:21.5:48.0'', temperature = Some (43 / 2),
           humidity = Some 48\<rparr>,
          [Debug_id_changed None ''2'', Data_measurement ''2'' ''21.5'' ''48.0''],
          [\<lparr>measurement = ''climate'', tag_location = ''attic'',
            time = ''Wed Nov  4 14:41:00 2026'',
            field_temperature = Some (43 / 2), field_humidity = Some 48\<rparr>])"
  by (simp add: loop_body_def read_def decode_ascii_def strip_def is_space_def
        Sensor_init_def process_def dispatch_D got_data_def float_decimal_examples
        json_point_def)

subsection \<open>The scenario of a recorded id 7 and a data line with id 9\<close>

text \<open>
  Claim C6, as amended. From every sensor whose stored id is \<open>7\<close>, the line
  \<^verbatim>\<open>D:9:20.0:50.0\<close> makes \<open>process\<close> return \<open>True\<close> with the parsed 20.0 and 50.0
  stored: the mismatch does not suppress the reading. The id-changed debug message
  (from \<open>7\<close> to \<open>9\<close>) is recorded, followed by the data message with id \<open>9\<close>. The
  stored id stays \<open>7\<close>, and the point built for the database holds the two values, the
  table, the location and the time, and no id.
\<close>

theorem mismatching_data_line_still_forwarded:
  assumes "id_sensor s = Some ''7''"
      and "pf ''20.0'' = Some x" and "pf ''50.0'' = Some y"
  shows "process pf (s\<lparr>line := Some ''D:9:20.0:50.0''\<rparr>)
     = (True,
        s\<lparr>line := Some ''D:9:20.0:50.0'', temperature := Some x, humidity := Some y\<rparr>,
        [Debug_id_changed (Some ''7'') ''9'', Data_measurement ''9'' ''20.0'' ''50.0''])
   \<and> id_sensor
        (s\<lparr>line := Some ''D:9:20.0:50.0'', temperature := Some x, humidity := Some y\<rparr>)
       = Some ''7''
   \<and> json_point cfg now
        (s\<lparr>line := Some ''D:9:20.0:50.0'', temperature := Some x, humidity := Some y\<rparr>)
       = \<lparr>measurement = table cfg, tag_location = location cfg, time = now,
          field_temperature = Some x, field_humidity = Some y\<rparr>"
  using assms by (simp add: process_def dispatch_D got_data_def json_point_def)

theorem mismatching_data_line_still_forwarded_witness:
  "process float_decimal
     \<lparr>id_sensor = Some ''7'', ver = Some ''2.1'', scale = Some ''C'',
      serial_port = ''/dev/ttyUSB0'', serial_speed = 9600,
      line = Some ''D:9:20.0:50.0'', temperature = Some (43 / 2), humidity = Some 48\<rparr>
   = (True,
      \<lparr>id_sensor = Some ''7'', ver = Some ''2.1'', scale = Some ''C'',
       serial_port = ''/dev/ttyUSB0'', serial_speed = 9600,
       line = Some ''D:9:20.0:50.0'', temperature = Some 20, humidity = Some 50\<rparr>,
      [Debug_id_changed (Some ''7'') ''9'', Data_measurement ''9'' ''20.0'' ''50.0''])"
  using mismatching_data_line_still_forwarded
    [where pf = float_decimal and x = 20 and y = 50
       and s = "\<lparr>id_sensor = Some ''7'', ver = Some ''2.1'', scale = Some ''C'',
                 serial_port = ''/dev/ttyUSB0'', serial_speed = 9600,
                 line = None, temperature = Some (43 / 2), humidity = Some 48\<rparr>"]
  by (simp add: float_decimal_examples)

text \<open>
  The claim as stated fails on the id of the reading: with id \<open>7\<close> stored, the line
  \<^verbatim>\<open>D:9:20.0:50.0\<close> hands the database the point that \<^verbatim>\<open>D:7:20.0:50.0\<close> hands
  it, and the sensor afterwards holds id \<open>7\<close> in both runs; \<open>9\<close> is in the line buffer
  and in the log events only.
\<close>

theorem mismatching_data_line_point_has_no_id:
  "loop_body float_decimal \<lparr>table = ''climate'', location = ''attic''\<rparr>
     \<lparr>readline = Inr (''D:9:20.0:50.0'' @ [CHR 0x0A]),
      ctime = ''Wed Nov  4 14:41:00 2026'', write_points = (\<lambda>p. None)\<rparr>
     \<lparr>id_sensor = Some ''7'', ver = Some ''2.1'', scale = Some ''C'',
      serial_port = ''/dev/ttyUSB0'', serial_speed = 9600,
      line = None, temperature = None, humidity = None\<rparr>
   = Inr (\<lparr>id_sensor = Some ''7'', ver = Some ''2.1'', scale = Some ''C'',
           serial_port = ''/dev/ttyUSB0'', serial_speed = 9600,
           line = Some ''D:9:20.0:50.0'', temperature = Some 20, humidity = Some 50\<rparr>,
          [Debug_id_changed (Some ''7'') ''9'', Data_measurement ''9'' ''20.0'' ''50.0''],
          [\<lparr>measurement = ''climate'', tag_location = ''attic'',
            time = ''Wed Nov  4 14:41:00 2026'',
            field_temperature = Some 20, field_humidity = Some 50\<rparr>])
   \<and> loop_body float_decimal \<lparr>table = ''climate'', location = ''attic''\<rparr>
     \<lparr>readline = Inr (''D:7:20.0:50.0'' @ [CHR 0x0A]),
      ctime = ''Wed Nov  4 14:41:00 2026'', write_points = (\<lambda>p. None)\<rparr>
     \<lparr>id_sensor = Some ''7'', ver = Some ''2.1'', scale = Some ''C'',
      serial_port = ''/dev/ttyUSB0'', serial_speed = 9600,
      line = None, temperature = None, humidity = None\<rparr>
   = Inr (\<lparr>id_sensor = Some ''7'', ver = Some ''2.1'', scale = Some ''C'',
           serial_port = ''/dev/ttyUSB0'', serial_speed = 9600,
           line = Some ''D:7:20.0:50.0'', temperature = Some 20, humidity = Some 50\<rparr>,
          [Data_measurement ''7'' ''20.0'' ''50.0''],
          [\<lparr>measurement = ''climate'', tag_location = ''attic'',
            time = ''Wed Nov  4 14:41:00 2026'',
            field_temperature = Some 20, field_humidity = Some 50\<rparr>])"
  by (simp add: loop_body_def read_def decode_ascii_def strip_def is_space_def
        process_def dispatch_D got_data_def float_decimal_examples json_point_def)

end
